theory Spec2Isabelle
  imports Main "HOL-Library.Sublist" "HOL-Library.Stream"
begin

section \<open>Replication strategies of the ring (internal/cortex/ring/replication_strategy.go)\<close>

subsection \<open>Data model\<close>

text \<open>
  Instants (\<^verbatim>\<open>time.Time\<close>) and durations (\<^verbatim>\<open>time.Duration\<close>) are integers on one
  common scale. Go's \<^verbatim>\<open>int\<close> is modelled by \<^typ>\<open>int\<close>: the only arithmetic of the
  strategies is \<^verbatim>\<open>replicationFactor / 2 + 1\<close> and \<^verbatim>\<open>len(instances) - minSuccess\<close>,
  neither of which can leave the range of a machine integer (lemma
  \<open>quorum_arithmetic_in_range\<close> below).
\<close>

type_synonym Time = int
type_synonym Duration = int

text \<open>
  Modelled from the spec: the declarations of \<^verbatim>\<open>Operation\<close>, of the lifecycle states and
  of \<^verbatim>\<open>InstanceDesc\<close> live in other files of the package. Section 3 of the specification
  lists the fields of an instance record (address, zone, lifecycle state, last heartbeat,
  owned tokens) and names the operation kinds and lifecycle states by example. The
  strategies themselves read only \<^verbatim>\<open>Addr\<close> and call \<^verbatim>\<open>IsHealthy\<close>.
\<close>

datatype Operation = Read | Write | Delete

datatype InstanceState = JOINING | ACTIVE | LEAVING | LEFT

record InstanceDesc =
  Addr :: string
  Zone :: string
  State :: InstanceState
  Timestamp :: Time
  Tokens :: "nat list"

text \<open>
  The process environment as far as the strategies observe it: the wall clock, as the
  stream of the readings that the coming calls of \<^verbatim>\<open>time.Now()\<close> return. A call of
  \<^verbatim>\<open>time.Now()\<close> in the environment \<open>w\<close> returns \<open>time_Now w\<close>, the head of the stream,
  and leaves the environment \<open>polled w\<close>, in which that reading is used up. The record is
  extensible, so a world may carry anything else.
\<close>

record World =
  clock :: "Time stream"

definition time_Now :: "'w World_scheme \<Rightarrow> Time" where
  "time_Now w = shd (clock w)"

definition polled :: "'w World_scheme \<Rightarrow> 'w World_scheme" where
  "polled w = w\<lparr>clock := stl (clock w)\<rparr>"

text \<open>
  The three results of \<^verbatim>\<open>Filter\<close>: the healthy slice (\<^verbatim>\<open>nil\<close> is the empty list), the
  failure budget, and the error (\<^verbatim>\<open>nil\<close> is \<^const>\<open>None\<close>). An error made by
  \<^verbatim>\<open>fmt.Errorf\<close> from a format without \<^verbatim>\<open>%w\<close> holds its message and nothing else, so
  the error value is the message.
\<close>

record FilterResult =
  healthy :: "InstanceDesc list"
  maxFailures :: int
  err :: "string option"

subsection \<open>Formatting: \<^verbatim>\<open>%d\<close> and \<^verbatim>\<open>strings.Join\<close>\<close>

definition digit :: "nat \<Rightarrow> char" where
  "digit d = ''0123456789'' ! d"

function show_nat :: "nat \<Rightarrow> string" where
  "show_nat n = (if n < 10 then [digit n] else show_nat (n div 10) @ [digit (n mod 10)])"
  by pat_completeness auto
termination
  by (relation "measure id") auto

declare show_nat.simps [simp del]

definition show_int :: "int \<Rightarrow> string" where
  "show_int k = (if k < 0 then CHR ''-'' # show_nat (nat (- k)) else show_nat (nat k))"

fun strings_Join :: "string list \<Rightarrow> string \<Rightarrow> string" where
  "strings_Join [] sep = []"
| "strings_Join [s] sep = s"
| "strings_Join (s # t # ss) sep = s @ sep @ strings_Join (t # ss) sep"

subsection \<open>Integer division of Go\<close>

text \<open>Go's \<^verbatim>\<open>/\<close> on integers truncates toward zero; HOL's \<open>div\<close> rounds down.\<close>

definition go_quo :: "int \<Rightarrow> int \<Rightarrow> int" where
  "go_quo a b = sgn a * sgn b * (\<bar>a\<bar> div \<bar>b\<bar>)"

subsection \<open>The filtering loop (lines 35-43 and 83-91)\<close>

text \<open>
  \<^verbatim>\<open>append(s, ys...)\<close> where \<^verbatim>\<open>s\<close> is the first \<open>i\<close> elements of the array and the
  capacity suffices: the elements \<open>ys\<close> are written into the array behind position \<open>i\<close>,
  the rest of the array stays as it was.
\<close>

definition append_inplace :: "'a list \<Rightarrow> nat \<Rightarrow> 'a list \<Rightarrow> 'a list" where
  "append_inplace arr i ys = take i arr @ ys @ drop (i + length ys) arr"

text \<open>
  The loop works on the caller's backing array. \<open>arr\<close> is the array as the caller's
  slice sees it (its length never changes), \<open>n\<close> is \<^verbatim>\<open>len(instances)\<close> of the local
  slice header, \<open>i\<close> the loop index. Removing position \<open>i\<close> is
  \<^verbatim>\<open>instances = append(instances[:i], instances[i+1:]...)\<close>: the elements behind \<open>i\<close> move
  one place down inside the array and the local length drops by one.
\<close>

function filterLoop ::
  "(InstanceDesc \<Rightarrow> bool) \<Rightarrow> nat \<Rightarrow> InstanceDesc list \<Rightarrow> nat \<Rightarrow> string list
    \<Rightarrow> InstanceDesc list \<times> nat \<times> string list" where
  "filterLoop isHealthy i arr n unhealthy =
     (if i < n then
        (if isHealthy (arr ! i) then filterLoop isHealthy (i + 1) arr n unhealthy
         else filterLoop isHealthy i
                (append_inplace arr i (drop (i + 1) (take n arr))) (n - 1)
                (unhealthy @ [Addr (arr ! i)]))
      else (arr, n, unhealthy))"
  by pat_completeness auto
termination
  by (relation "measure (\<lambda>(h, i, arr, n, u). n - i)") auto

declare filterLoop.simps [simp del]

subsection \<open>The quorum strategy (lines 31-72)\<close>

text \<open>Lines 48-52: the replication factor used for the quorum, and the quorum.\<close>

definition effectiveFactor :: "int \<Rightarrow> nat \<Rightarrow> int" where
  "effectiveFactor replicationFactor n =
     (if int n > replicationFactor then int n else replicationFactor)"

definition minSuccess :: "int \<Rightarrow> nat \<Rightarrow> int" where
  "minSuccess replicationFactor n = go_quo (effectiveFactor replicationFactor n) 2 + 1"

text \<open>Lines 57-60 and 95-98.\<close>

definition unhealthyStr :: "string list \<Rightarrow> string" where
  "unhealthyStr unhealthy =
     (if length unhealthy > 0
      then '' - unhealthy instances: '' @ strings_Join unhealthy '',''
      else '''')"

text \<open>
  \<^verbatim>\<open>IsHealthy\<close> is a method of \<^verbatim>\<open>InstanceDesc\<close> declared in another file of the package;
  it is a parameter of the model. \<open>Filter\<close> returns its three results together with the
  caller's array after the call and the environment after the call.
\<close>

definition default_Filter ::
  "(InstanceDesc \<Rightarrow> Operation \<Rightarrow> Duration \<Rightarrow> Time \<Rightarrow> bool) \<Rightarrow> 'w World_scheme
    \<Rightarrow> InstanceDesc list \<Rightarrow> Operation \<Rightarrow> int \<Rightarrow> Duration \<Rightarrow> bool
    \<Rightarrow> FilterResult \<times> InstanceDesc list \<times> 'w World_scheme" where
  "default_Filter IsHealthy w instances op replicationFactor heartbeatTimeout zoneAwarenessEnabled =
     (let now = time_Now w; w' = polled w in
      case filterLoop (\<lambda>inst. IsHealthy inst op heartbeatTimeout now) 0
             instances (length instances) [] of
        (arr, n, unhealthy) \<Rightarrow>
          (let ms = minSuccess replicationFactor n in
           if int n < ms then
             (\<lparr>healthy = [], maxFailures = 0,
               err = Some
                 (if zoneAwarenessEnabled
                  then ''at least '' @ show_int ms
                       @ '' live replicas required across different availability zones, could only find ''
                       @ show_int (int n) @ unhealthyStr unhealthy
                  else ''at least '' @ show_int ms
                       @ '' live replicas required, could only find ''
                       @ show_int (int n) @ unhealthyStr unhealthy)\<rparr>,
              arr, w')
           else
             (\<lparr>healthy = take n arr, maxFailures = int n - ms, err = None\<rparr>, arr, w')))"

subsection \<open>The best-effort strategy (lines 80-103)\<close>

definition ignoreUnhealthy_Filter ::
  "(InstanceDesc \<Rightarrow> Operation \<Rightarrow> Duration \<Rightarrow> Time \<Rightarrow> bool) \<Rightarrow> 'w World_scheme
    \<Rightarrow> InstanceDesc list \<Rightarrow> Operation \<Rightarrow> int \<Rightarrow> Duration \<Rightarrow> bool
    \<Rightarrow> FilterResult \<times> InstanceDesc list \<times> 'w World_scheme" where
  "ignoreUnhealthy_Filter IsHealthy w instances op replicationFactor heartbeatTimeout zoneAwarenessEnabled =
     (let now = time_Now w; w' = polled w in
      case filterLoop (\<lambda>inst. IsHealthy inst op heartbeatTimeout now) 0
             instances (length instances) [] of
        (arr, n, unhealthy) \<Rightarrow>
          if n = 0 then
            (\<lparr>healthy = [], maxFailures = 0,
              err = Some (''at least 1 healthy replica required, could only find 0''
                          @ unhealthyStr unhealthy)\<rparr>,
             arr, w')
          else
            (\<lparr>healthy = take n arr, maxFailures = int n - 1, err = None\<rparr>, arr, w'))"

subsection \<open>The health predicate used in the examples\<close>

text \<open>
  Modelled from the spec: \<^verbatim>\<open>InstanceDesc.IsHealthy\<close> is declared in another file of the package.
  Section 4.1: the predicate is false if \<open>now - lastHeartbeat > heartbeatTimeout\<close>, and
  false if the lifecycle state is incompatible with the operation kind. The specification
  leaves the table of compatible states open, so it is the parameter \<open>eligible\<close>.
\<close>

definition IsHealthy_spec ::
  "(Operation \<Rightarrow> InstanceState \<Rightarrow> bool) \<Rightarrow> InstanceDesc \<Rightarrow> Operation \<Rightarrow> Duration \<Rightarrow> Time \<Rightarrow> bool" where
  "IsHealthy_spec eligible inst op heartbeatTimeout now =
     (if now - Timestamp inst > heartbeatTimeout then False
      else if \<not> eligible op (State inst) then False
      else True)"

text \<open>An instance at an address with its last heartbeat; active, no zone, no tokens.\<close>

definition inst :: "string \<Rightarrow> Time \<Rightarrow> InstanceDesc" where
  "inst a t = \<lparr>Addr = a, Zone = '''', State = ACTIVE, Timestamp = t, Tokens = []\<rparr>"

text \<open>The table of compatible states that admits every state for every operation.\<close>

definition anyState :: "Operation \<Rightarrow> InstanceState \<Rightarrow> bool" where
  "anyState op s = True"

section \<open>The loop computes the healthy instances, in place\<close>

lemma append_inplace_remove:
  "append_inplace (P @ x # R @ D) (length P)
     (drop (length P + 1) (take (length P + Suc (length R)) (P @ x # R @ D)))
   = P @ R @ (if R = [] then x else last R) # D"
proof (cases "R = []")
  case True
  then show ?thesis by (simp add: append_inplace_def)
next
  case False
  then obtain R' y where R: "R = R' @ [y]"
    by (metis append_butlast_last_id)
  show ?thesis
    by (simp add: append_inplace_def R)
qed

lemma filterLoop_eq:
  "filterLoop h (length P) (P @ R @ D) (length P + length R) u =
     (P @ filter h R @ replicate (length (filter (\<lambda>x. \<not> h x) R)) (last R) @ D,
      length P + length (filter h R),
      u @ map Addr (filter (\<lambda>x. \<not> h x) R))"
proof (induction R arbitrary: P D u)
  case Nil
  show ?case
    by (subst filterLoop.simps) simp
next
  case (Cons x R)
  show ?case
  proof (cases "h x")
    case True
    have "filterLoop h (length P) (P @ (x # R) @ D) (length P + length (x # R)) u
        = filterLoop h (length (P @ [x])) ((P @ [x]) @ R @ D) (length (P @ [x]) + length R) u"
      by (subst filterLoop.simps) (simp add: True nth_append)
    also have "\<dots> = ((P @ [x]) @ filter h R
                       @ replicate (length (filter (\<lambda>x. \<not> h x) R)) (last R) @ D,
                     length (P @ [x]) + length (filter h R),
                     u @ map Addr (filter (\<lambda>x. \<not> h x) R))"
      by (rule Cons.IH)
    finally show ?thesis
      using True by (cases "R = []") simp_all
  next
    case False
    let ?y = "if R = [] then x else last R"
    have "filterLoop h (length P) (P @ (x # R) @ D) (length P + length (x # R)) u
        = filterLoop h (length P) (P @ R @ ?y # D) (length P + length R) (u @ [Addr x])"
      using append_inplace_remove [of P x R D]
      by (subst filterLoop.simps) (simp add: False nth_append)
    also have "\<dots> = (P @ filter h R
                       @ replicate (length (filter (\<lambda>x. \<not> h x) R)) (last R) @ ?y # D,
                     length P + length (filter h R),
                     (u @ [Addr x]) @ map Addr (filter (\<lambda>x. \<not> h x) R))"
      by (rule Cons.IH)
    finally show ?thesis
      using False by (cases "R = []") (simp_all add: replicate_append_same)
  qed
qed

lemma filterLoop_whole:
  "filterLoop h 0 xs (length xs) [] =
     (filter h xs @ replicate (length (filter (\<lambda>x. \<not> h x) xs)) (last xs),
      length (filter h xs),
      map Addr (filter (\<lambda>x. \<not> h x) xs))"
  using filterLoop_eq [of h "[]" xs "[]" "[]"] by simp

section \<open>What the two strategies return\<close>

lemma go_quo_nonneg: "0 \<le> a \<Longrightarrow> go_quo a 2 = a div 2"
  by (cases "a = 0") (simp_all add: go_quo_def)

lemma effectiveFactor_max: "effectiveFactor rf n = max rf (int n)"
  by (simp add: effectiveFactor_def max_def)

lemma minSuccess_floor: "minSuccess rf n = max rf (int n) div 2 + 1"
  by (simp add: minSuccess_def effectiveFactor_max go_quo_nonneg)

lemma minSuccess_ge_1: "1 \<le> minSuccess rf n"
proof -
  have "0 \<le> max rf (int n) div 2" by simp
  then show ?thesis by (simp add: minSuccess_floor)
qed

lemma default_Filter_fst:
  "fst (default_Filter IsHealthy w xs op rf hb z) =
     (if int (length (filter (\<lambda>i. IsHealthy i op hb (time_Now w)) xs))
           < minSuccess rf (length (filter (\<lambda>i. IsHealthy i op hb (time_Now w)) xs))
      then \<lparr>healthy = [], maxFailures = 0,
             err = Some (''at least ''
               @ show_int (minSuccess rf (length (filter (\<lambda>i. IsHealthy i op hb (time_Now w)) xs)))
               @ (if z then '' live replicas required across different availability zones, could only find ''
                  else '' live replicas required, could only find '')
               @ show_int (int (length (filter (\<lambda>i. IsHealthy i op hb (time_Now w)) xs)))
               @ unhealthyStr (map Addr (filter (\<lambda>i. \<not> IsHealthy i op hb (time_Now w)) xs)))\<rparr>
      else \<lparr>healthy = filter (\<lambda>i. IsHealthy i op hb (time_Now w)) xs,
             maxFailures = int (length (filter (\<lambda>i. IsHealthy i op hb (time_Now w)) xs))
               - minSuccess rf (length (filter (\<lambda>i. IsHealthy i op hb (time_Now w)) xs)),
             err = None\<rparr>)"
  by (simp add: default_Filter_def filterLoop_whole Let_def)



lemma default_Filter_array:
  "fst (snd (default_Filter IsHealthy w xs op rf hb z)) =
     filter (\<lambda>i. IsHealthy i op hb (time_Now w)) xs
     @ replicate (length (filter (\<lambda>i. \<not> IsHealthy i op hb (time_Now w)) xs)) (last xs)"
  by (simp add: default_Filter_def filterLoop_whole Let_def)

lemma ignoreUnhealthy_Filter_fst:
  "fst (ignoreUnhealthy_Filter IsHealthy w xs op rf hb z) =
     (if filter (\<lambda>i. IsHealthy i op hb (time_Now w)) xs = []
      then \<lparr>healthy = [], maxFailures = 0,
             err = Some (''at least 1 healthy replica required, could only find 0''
               @ unhealthyStr (map Addr (filter (\<lambda>i. \<not> IsHealthy i op hb (time_Now w)) xs)))\<rparr>
      else \<lparr>healthy = filter (\<lambda>i. IsHealthy i op hb (time_Now w)) xs,
             maxFailures = int (length (filter (\<lambda>i. IsHealthy i op hb (time_Now w)) xs)) - 1,
             err = None\<rparr>)"
  by (simp add: ignoreUnhealthy_Filter_def filterLoop_whole Let_def)

lemma ignoreUnhealthy_Filter_array:
  "fst (snd (ignoreUnhealthy_Filter IsHealthy w xs op rf hb z)) =
     filter (\<lambda>i. IsHealthy i op hb (time_Now w)) xs
     @ replicate (length (filter (\<lambda>i. \<not> IsHealthy i op hb (time_Now w)) xs)) (last xs)"
  by (simp add: ignoreUnhealthy_Filter_def filterLoop_whole Let_def)

lemma unhealthyStr_alt:
  "unhealthyStr U = (if U = [] then '''' else '' - unhealthy instances: '' @ strings_Join U '','')"
  by (simp add: unhealthyStr_def)

lemmas example_defs = IsHealthy_spec_def inst_def anyState_def time_Now_def

lemma show_int_examples:
  "show_int 0 = ''0''" "show_int 1 = ''1''" "show_int 2 = ''2''"
  by (simp_all add: show_int_def show_nat.simps digit_def)

lemma replicas_wording_differs:
  "''at least '' @ m @ '' live replicas required across different availability zones, could only find '' @ t
   \<noteq> ''at least '' @ m @ '' live replicas required, could only find '' @ t'"
  by simp

lemma length_filter_not:
  "length (filter (\<lambda>x. \<not> h x) xs) = length xs - length (filter h xs)"
  using sum_length_filter_compl [of h xs] by simp

text \<open>
  For a replication factor and a length in the range of a 64-bit \<^verbatim>\<open>int\<close>, the quorum and
  the failure budget stay in that range: the unbounded integers of the model compute what
  the machine integers compute.
\<close>

lemma quorum_arithmetic_in_range:
  assumes "- (2 ^ 63) \<le> rf" and "rf < 2 ^ 63" and "int n < 2 ^ 63"
  shows "minSuccess rf n < 2 ^ 63"
    and "- (2 ^ 63) \<le> int n - minSuccess rf n"
    and "int n - minSuccess rf n < 2 ^ 63"
proof -
  let ?e = "max rf (int n)"
  have e: "0 \<le> ?e" "?e < 2 ^ 63" "int n \<le> ?e"
    using assms by simp_all
  have half: "?e div 2 \<le> ?e" "0 \<le> ?e div 2"
    using e(1) by simp_all
  have "?e div 2 + 1 < 2 ^ 63"
  proof (cases "?e = 0")
    case True
    then show ?thesis by simp
  next
    case False
    with e(1) have "?e div 2 < ?e" by simp
    with e(2) show ?thesis by linarith
  qed
  then show "minSuccess rf n < 2 ^ 63"
    unfolding minSuccess_floor .
  have "int n - (?e div 2 + 1) \<ge> - ?e - 1"
    using half by simp
  with e(2) show "- (2 ^ 63) \<le> int n - minSuccess rf n"
    unfolding minSuccess_floor by linarith
  have "int n - (?e div 2 + 1) \<le> int n"
    using half by simp
  with assms(3) show "int n - minSuccess rf n < 2 ^ 63"
    unfolding minSuccess_floor by linarith
qed

section \<open>The claims\<close>

text \<open>
  C1. Let \<open>H\<close> be the instances that pass the health predicate at the time read at the
  start of the call. The quorum strategy uses \<open>max RF (len H)\<close> as replication factor and
  \<open>minSuccess\<close> is that factor divided by two, rounded down, plus one. Whenever \<open>H\<close> has at
  least \<open>minSuccess\<close> elements, \<open>Filter\<close> returns all of \<open>H\<close> (not cut down to \<open>RF\<close>),
  \<open>len H - minSuccess\<close> as failure budget, and no error.
\<close>

theorem C1_quorum_success:
  assumes "H = filter (\<lambda>i. IsHealthy i op hb (time_Now w)) instances"
  shows "effectiveFactor rf (length H) = max rf (int (length H))
       \<and> minSuccess rf (length H) = effectiveFactor rf (length H) div 2 + 1
       \<and> (int (length H) \<ge> minSuccess rf (length H) \<longrightarrow>
            fst (default_Filter IsHealthy w instances op rf hb zone)
              = \<lparr>healthy = H,
                 maxFailures = int (length H) - (max rf (int (length H)) div 2 + 1),
                 err = None\<rparr>)"
proof (intro conjI impI)
  show "effectiveFactor rf (length H) = max rf (int (length H))"
    by (rule effectiveFactor_max)
  show "minSuccess rf (length H) = effectiveFactor rf (length H) div 2 + 1"
    by (simp add: minSuccess_floor effectiveFactor_max)
next
  assume "minSuccess rf (length H) \<le> int (length H)"
  then show "fst (default_Filter IsHealthy w instances op rf hb zone)
              = \<lparr>healthy = H,
                 maxFailures = int (length H) - (max rf (int (length H)) div 2 + 1),
                 err = None\<rparr>"
    unfolding assms default_Filter_fst by (simp add: minSuccess_floor)
qed

text \<open>
  Three candidates, the second with a stale heartbeat, \<open>RF = 3\<close>: the quorum is 2, the two
  healthy instances are returned and no further failure is tolerated.
\<close>

theorem C1_quorum_success_witness:
  "effectiveFactor 3 2 = 3 \<and> minSuccess 3 2 = 3 div 2 + 1
   \<and> fst (default_Filter (IsHealthy_spec anyState) \<lparr>clock = sconst 100\<rparr>
            [inst ''a'' 95, inst ''b'' 10, inst ''c'' 99] Write 3 30 False)
       = \<lparr>healthy = [inst ''a'' 95, inst ''c'' 99], maxFailures = 0, err = None\<rparr>"
  using C1_quorum_success [of "[inst ''a'' 95, inst ''c'' 99]" "IsHealthy_spec anyState" Write 30
      "\<lparr>clock = sconst 100\<rparr>" "[inst ''a'' 95, inst ''b'' 10, inst ''c'' 99]" 3 False]
  by (simp add: example_defs effectiveFactor_def minSuccess_def go_quo_def eval_nat_numeral)

text \<open>
  C2. Whenever fewer than \<open>minSuccess\<close> instances are healthy, the quorum strategy returns
  an error together with the nil instance list and a failure budget of zero. It never
  returns instances alongside an error, whatever the input.
\<close>

theorem C2_quorum_failure_returns_nothing:
  assumes "H = filter (\<lambda>i. IsHealthy i op hb (time_Now w)) instances"
    and "r = fst (default_Filter IsHealthy w instances op rf hb zone)"
  shows "(int (length H) < minSuccess rf (length H) \<longrightarrow>
            err r \<noteq> None \<and> healthy r = [] \<and> maxFailures r = 0)
       \<and> (err r \<noteq> None \<longrightarrow> healthy r = [] \<and> maxFailures r = 0)"
  unfolding assms default_Filter_fst by simp

text \<open>One healthy instance of three with \<open>RF = 3\<close>: the quorum of 2 is missed.\<close>

theorem C2_quorum_failure_returns_nothing_witness:
  "int (length [inst ''c'' 99]) < minSuccess 3 (length [inst ''c'' 99])
   \<and> err (fst (default_Filter (IsHealthy_spec anyState) \<lparr>clock = sconst 100\<rparr>
              [inst ''a'' 5, inst ''b'' 10, inst ''c'' 99] Write 3 30 False)) \<noteq> None
   \<and> healthy (fst (default_Filter (IsHealthy_spec anyState) \<lparr>clock = sconst 100\<rparr>
              [inst ''a'' 5, inst ''b'' 10, inst ''c'' 99] Write 3 30 False)) = []
   \<and> maxFailures (fst (default_Filter (IsHealthy_spec anyState) \<lparr>clock = sconst 100\<rparr>
              [inst ''a'' 5, inst ''b'' 10, inst ''c'' 99] Write 3 30 False)) = 0"
  using C2_quorum_failure_returns_nothing [of "[inst ''c'' 99]" "IsHealthy_spec anyState" Write 30
      "\<lparr>clock = sconst 100\<rparr>" "[inst ''a'' 5, inst ''b'' 10, inst ''c'' 99]"
      "fst (default_Filter (IsHealthy_spec anyState) \<lparr>clock = sconst 100\<rparr>
              [inst ''a'' 5, inst ''b'' 10, inst ''c'' 99] Write 3 30 False)" 3 False]
  by (simp add: example_defs minSuccess_floor)

text \<open>
  C3. The best-effort strategy fails if and only if no input instance is healthy, and the
  error then names the addresses of the instances, all of them unhealthy. Whenever an
  instance is healthy it succeeds with all healthy instances and a failure budget of
  exactly the healthy count minus one.
\<close>

theorem C3_best_effort_fails_iff_none_healthy:
  assumes "H = filter (\<lambda>i. IsHealthy i op hb (time_Now w)) instances"
    and "r = fst (ignoreUnhealthy_Filter IsHealthy w instances op rf hb zone)"
  shows "(err r \<noteq> None \<longleftrightarrow> H = [])
       \<and> (H = [] \<longrightarrow>
            err r = Some (''at least 1 healthy replica required, could only find 0''
                          @ (if instances = [] then ''''
                             else '' - unhealthy instances: ''
                                  @ strings_Join (map Addr instances) '','')))
       \<and> (H \<noteq> [] \<longrightarrow>
            healthy r = H \<and> maxFailures r = int (length H) - 1 \<and> err r = None)"
proof (cases "H = []")
  case True
  then have "\<forall>i\<in>set instances. \<not> IsHealthy i op hb (time_Now w)"
    by (simp add: assms(1) filter_empty_conv)
  then have "filter (\<lambda>i. \<not> IsHealthy i op hb (time_Now w)) instances = instances"
    by simp
  with True show ?thesis
    unfolding assms ignoreUnhealthy_Filter_fst by (simp add: unhealthyStr_alt)
next
  case False
  then show ?thesis
    unfolding assms ignoreUnhealthy_Filter_fst by simp
qed

text \<open>Two stale candidates fail; of four candidates with two alive, both are returned.\<close>

theorem C3_best_effort_fails_iff_none_healthy_witness:
  "err (fst (ignoreUnhealthy_Filter (IsHealthy_spec anyState) \<lparr>clock = sconst 100\<rparr>
          [inst ''a'' 5, inst ''b'' 10] Read 3 30 False))
     = Some ''at least 1 healthy replica required, could only find 0 - unhealthy instances: a,b''
   \<and> fst (ignoreUnhealthy_Filter (IsHealthy_spec anyState) \<lparr>clock = sconst 100\<rparr>
          [inst ''a'' 5, inst ''b'' 10, inst ''c'' 99, inst ''d'' 80] Read 3 30 False)
     = \<lparr>healthy = [inst ''c'' 99, inst ''d'' 80], maxFailures = 1, err = None\<rparr>"
  using
    C3_best_effort_fails_iff_none_healthy [of "[]" "IsHealthy_spec anyState" Read 30
      "\<lparr>clock = sconst 100\<rparr>" "[inst ''a'' 5, inst ''b'' 10]"
      "fst (ignoreUnhealthy_Filter (IsHealthy_spec anyState) \<lparr>clock = sconst 100\<rparr>
          [inst ''a'' 5, inst ''b'' 10] Read 3 30 False)" 3 False]
    C3_best_effort_fails_iff_none_healthy [of "[inst ''c'' 99, inst ''d'' 80]"
      "IsHealthy_spec anyState" Read 30
      "\<lparr>clock = sconst 100\<rparr>" "[inst ''a'' 5, inst ''b'' 10, inst ''c'' 99, inst ''d'' 80]"
      "fst (ignoreUnhealthy_Filter (IsHealthy_spec anyState) \<lparr>clock = sconst 100\<rparr>
          [inst ''a'' 5, inst ''b'' 10, inst ''c'' 99, inst ''d'' 80] Read 3 30 False)" 3 False]
  by (simp add: example_defs)

text \<open>
  C4 as stated says that for every input the returned slice holds exactly the input
  instances that pass \<open>IsHealthy\<close>. The quorum strategy returns nil whenever it fails
  (line 68), also when some instances are healthy: of three candidates with \<open>RF = 3\<close>
  the third is healthy and is an element of the input, and the returned slice is nil.
\<close>

theorem C4_quorum_failure_returns_nil_counterexample:
  "healthy (fst (default_Filter (IsHealthy_spec anyState) \<lparr>clock = sconst 100\<rparr>
        [inst ''a'' 5, inst ''b'' 10, inst ''c'' 99] Write 3 30 False)) = []
   \<and> inst ''c'' 99 \<in> set [inst ''a'' 5, inst ''b'' 10, inst ''c'' 99]
   \<and> IsHealthy_spec anyState (inst ''c'' 99) Write 30 (time_Now \<lparr>clock = sconst 100\<rparr>)"
  by (simp add: default_Filter_fst example_defs minSuccess_floor)

text \<open>
  C4, amended. For every input list and both strategies the returned slice is a
  subsequence of the input list in the input's order, and every returned instance passes
  \<open>IsHealthy\<close> at the one time read for the whole call. The best-effort strategy returns
  exactly the input instances that pass it, for every input. The quorum strategy returns
  exactly those instances whenever it succeeds, and nil whenever it fails.
\<close>

theorem C4_healthy_subsequence_exact_unless_quorum_fails:
  assumes "h = (\<lambda>i. IsHealthy i op hb (time_Now w))"
    and "q = fst (default_Filter IsHealthy w instances op rf hb zone)"
    and "b = fst (ignoreUnhealthy_Filter IsHealthy w instances op rf' hb zone')"
  shows "subseq (healthy q) instances
       \<and> subseq (healthy b) instances
       \<and> (\<forall>x\<in>set (healthy q). h x)
       \<and> (\<forall>x\<in>set (healthy b). h x)
       \<and> healthy b = filter h instances
       \<and> healthy q = (if err q = None then filter h instances else [])"
proof -
  have b: "healthy b = filter h instances"
    unfolding assms ignoreUnhealthy_Filter_fst by simp
  have q: "healthy q = (if err q = None then filter h instances else [])"
    unfolding assms default_Filter_fst by simp
  have sub: "subseq (healthy q) instances" "subseq (healthy b) instances"
    unfolding q b by simp_all
  have only: "\<forall>x\<in>set (healthy q). h x" "\<forall>x\<in>set (healthy b). h x"
    unfolding q b by simp_all
  from sub only b q show ?thesis
    by (intro conjI)
qed

text \<open>
  Three candidates of which the first and the third are alive, \<open>RF = 3\<close>: both strategies
  return these two in this order. Three candidates of which only the third is alive: the
  best-effort strategy returns it, the quorum strategy returns nil.
\<close>

theorem C4_healthy_subsequence_exact_unless_quorum_fails_witness:
  "healthy (fst (default_Filter (IsHealthy_spec anyState) \<lparr>clock = sconst 100\<rparr>
        [inst ''a'' 95, inst ''b'' 10, inst ''c'' 99] Write 3 30 False))
     = [inst ''a'' 95, inst ''c'' 99]
   \<and> healthy (fst (ignoreUnhealthy_Filter (IsHealthy_spec anyState) \<lparr>clock = sconst 100\<rparr>
        [inst ''a'' 95, inst ''b'' 10, inst ''c'' 99] Write 3 30 False))
     = [inst ''a'' 95, inst ''c'' 99]
   \<and> subseq [inst ''a'' 95, inst ''c'' 99] [inst ''a'' 95, inst ''b'' 10, inst ''c'' 99]
   \<and> healthy (fst (default_Filter (IsHealthy_spec anyState) \<lparr>clock = sconst 100\<rparr>
        [inst ''a'' 5, inst ''b'' 10, inst ''c'' 99] Write 3 30 False))
     = []
   \<and> healthy (fst (ignoreUnhealthy_Filter (IsHealthy_spec anyState) \<lparr>clock = sconst 100\<rparr>
        [inst ''a'' 5, inst ''b'' 10, inst ''c'' 99] Write 3 30 False))
     = [inst ''c'' 99]"
proof -
  let ?h = "\<lambda>i. IsHealthy_spec anyState i Write 30 (time_Now \<lparr>clock = sconst 100\<rparr>)"
  let ?xs = "[inst ''a'' 95, inst ''b'' 10, inst ''c'' 99]"
  let ?ys = "[inst ''a'' 5, inst ''b'' 10, inst ''c'' 99]"
  let ?q = "fst (default_Filter (IsHealthy_spec anyState) \<lparr>clock = sconst 100\<rparr> ?xs Write 3 30 False)"
  let ?b = "fst (ignoreUnhealthy_Filter (IsHealthy_spec anyState) \<lparr>clock = sconst 100\<rparr> ?xs Write 3 30 False)"
  let ?q' = "fst (default_Filter (IsHealthy_spec anyState) \<lparr>clock = sconst 100\<rparr> ?ys Write 3 30 False)"
  let ?b' = "fst (ignoreUnhealthy_Filter (IsHealthy_spec anyState) \<lparr>clock = sconst 100\<rparr> ?ys Write 3 30 False)"
  have f: "filter ?h ?xs = [inst ''a'' 95, inst ''c'' 99]" "filter ?h ?ys = [inst ''c'' 99]"
    by (simp_all add: example_defs)
  have e: "err ?q = None" "err ?q' \<noteq> None"
    by (simp_all add: default_Filter_fst example_defs minSuccess_floor)
  note alive = C4_healthy_subsequence_exact_unless_quorum_fails [of ?h "IsHealthy_spec anyState"
      Write 30 "\<lparr>clock = sconst 100\<rparr>" ?q ?xs 3 False ?b 3 False, OF refl refl refl]
  note stale = C4_healthy_subsequence_exact_unless_quorum_fails [of ?h "IsHealthy_spec anyState"
      Write 30 "\<lparr>clock = sconst 100\<rparr>" ?q' ?ys 3 False ?b' 3 False, OF refl refl refl]
  from alive have q: "healthy ?q = (if err ?q = None then filter ?h ?xs else [])"
    by (elim conjE)
  from alive have b: "healthy ?b = filter ?h ?xs"
    by (elim conjE)
  from alive have s: "subseq (healthy ?q) ?xs"
    by (elim conjE)
  from stale have q': "healthy ?q' = (if err ?q' = None then filter ?h ?ys else [])"
    by (elim conjE)
  from stale have b': "healthy ?b' = filter ?h ?ys"
    by (elim conjE)
  have 1: "healthy ?q = [inst ''a'' 95, inst ''c'' 99]"
    by (simp only: q e if_True f simp_thms)
  have 2: "healthy ?b = [inst ''a'' 95, inst ''c'' 99]"
    by (simp only: b f)
  have 3: "subseq [inst ''a'' 95, inst ''c'' 99] ?xs"
    using s by (simp only: 1)
  have 4: "healthy ?q' = []"
    by (simp only: q' e if_False simp_thms)
  have 5: "healthy ?b' = [inst ''c'' 99]"
    by (simp only: b' f)
  from 1 2 3 4 5 show ?thesis
    by (intro conjI)
qed




text \<open>
  C6. With a positive configured replication factor, whenever either strategy succeeds
  the failure budget is a non-negative integer strictly below the number of returned
  instances: at least one returned instance has to succeed.
\<close>

theorem C6_maxFailures_below_healthy_count:
  assumes "0 < rf"
    and "r = fst (default_Filter IsHealthy w instances op rf hb zone)
       \<or> r = fst (ignoreUnhealthy_Filter IsHealthy w instances op rf hb zone)"
    and "err r = None"
  shows "0 \<le> maxFailures r \<and> maxFailures r < int (length (healthy r))"
  using assms(2)
proof
  assume q: "r = fst (default_Filter IsHealthy w instances op rf hb zone)"
  let ?n = "length (filter (\<lambda>i. IsHealthy i op hb (time_Now w)) instances)"
  have "1 \<le> minSuccess rf ?n"
    by (rule minSuccess_ge_1)
  with assms(3) show ?thesis
    unfolding q default_Filter_fst by (simp split: if_splits)
next
  assume b: "r = fst (ignoreUnhealthy_Filter IsHealthy w instances op rf hb zone)"
  from assms(3) show ?thesis
    unfolding b ignoreUnhealthy_Filter_fst by (simp split: if_splits)
qed

text \<open>Both strategies on three candidates of which two are alive, \<open>RF = 3\<close>.\<close>

theorem C6_maxFailures_below_healthy_count_witness:
  "(0::int) < 3
   \<and> err (fst (default_Filter (IsHealthy_spec anyState) \<lparr>clock = sconst 100\<rparr>
        [inst ''a'' 95, inst ''b'' 10, inst ''c'' 99] Write 3 30 False)) = None
   \<and> 0 \<le> maxFailures (fst (default_Filter (IsHealthy_spec anyState) \<lparr>clock = sconst 100\<rparr>
        [inst ''a'' 95, inst ''b'' 10, inst ''c'' 99] Write 3 30 False))
   \<and> maxFailures (fst (default_Filter (IsHealthy_spec anyState) \<lparr>clock = sconst 100\<rparr>
        [inst ''a'' 95, inst ''b'' 10, inst ''c'' 99] Write 3 30 False))
       < int (length (healthy (fst (default_Filter (IsHealthy_spec anyState) \<lparr>clock = sconst 100\<rparr>
        [inst ''a'' 95, inst ''b'' 10, inst ''c'' 99] Write 3 30 False))))
   \<and> err (fst (ignoreUnhealthy_Filter (IsHealthy_spec anyState) \<lparr>clock = sconst 100\<rparr>
        [inst ''a'' 95, inst ''b'' 10, inst ''c'' 99] Write 3 30 False)) = None
   \<and> 0 \<le> maxFailures (fst (ignoreUnhealthy_Filter (IsHealthy_spec anyState) \<lparr>clock = sconst 100\<rparr>
        [inst ''a'' 95, inst ''b'' 10, inst ''c'' 99] Write 3 30 False))
   \<and> maxFailures (fst (ignoreUnhealthy_Filter (IsHealthy_spec anyState) \<lparr>clock = sconst 100\<rparr>
        [inst ''a'' 95, inst ''b'' 10, inst ''c'' 99] Write 3 30 False))
       < int (length (healthy (fst (ignoreUnhealthy_Filter (IsHealthy_spec anyState) \<lparr>clock = sconst 100\<rparr>
        [inst ''a'' 95, inst ''b'' 10, inst ''c'' 99] Write 3 30 False))))"
proof -
  let ?xs = "[inst ''a'' 95, inst ''b'' 10, inst ''c'' 99]"
  let ?q = "fst (default_Filter (IsHealthy_spec anyState) \<lparr>clock = sconst 100\<rparr> ?xs Write 3 30 False)"
  let ?b = "fst (ignoreUnhealthy_Filter (IsHealthy_spec anyState) \<lparr>clock = sconst 100\<rparr> ?xs Write 3 30 False)"
  have rf: "(0::int) < 3" by simp
  have ok: "err ?q = None" "err ?b = None"
    by (simp_all add: default_Filter_fst ignoreUnhealthy_Filter_fst example_defs minSuccess_floor)
  have q: "0 \<le> maxFailures ?q \<and> maxFailures ?q < int (length (healthy ?q))"
    by (rule C6_maxFailures_below_healthy_count [OF rf disjI1 ok(1)]) (rule refl)
  have b: "0 \<le> maxFailures ?b \<and> maxFailures ?b < int (length (healthy ?b))"
    by (rule C6_maxFailures_below_healthy_count [OF rf disjI2 ok(2)]) (rule refl)
  from rf ok q b show ?thesis by blast
qed

text \<open>
  C7. Whenever the quorum strategy fails, the error gives \<open>minSuccess\<close>, the number of
  healthy instances and, if any instance was filtered out, the comma-separated addresses
  of the unhealthy ones. With zone-awareness the message says that the replicas are
  required across different availability zones, and it differs from the message
  without zone-awareness.
\<close>

theorem C7_quorum_error_message:
  assumes "H = filter (\<lambda>i. IsHealthy i op hb (time_Now w)) instances"
    and "U = map Addr (filter (\<lambda>i. \<not> IsHealthy i op hb (time_Now w)) instances)"
    and "int (length H) < minSuccess rf (length H)"
  shows "err (fst (default_Filter IsHealthy w instances op rf hb False))
           = Some (''at least '' @ show_int (minSuccess rf (length H))
                   @ '' live replicas required, could only find ''
                   @ show_int (int (length H))
                   @ (if U = [] then ''''
                      else '' - unhealthy instances: '' @ strings_Join U '',''))
       \<and> err (fst (default_Filter IsHealthy w instances op rf hb True))
           = Some (''at least '' @ show_int (minSuccess rf (length H))
                   @ '' live replicas required across different availability zones, could only find ''
                   @ show_int (int (length H))
                   @ (if U = [] then ''''
                      else '' - unhealthy instances: '' @ strings_Join U '',''))
       \<and> err (fst (default_Filter IsHealthy w instances op rf hb True))
           \<noteq> err (fst (default_Filter IsHealthy w instances op rf hb False))"
proof -
  have f: "err (fst (default_Filter IsHealthy w instances op rf hb False))
           = Some (''at least '' @ show_int (minSuccess rf (length H))
                   @ '' live replicas required, could only find ''
                   @ show_int (int (length H))
                   @ (if U = [] then ''''
                      else '' - unhealthy instances: '' @ strings_Join U '',''))"
    using assms(3) unfolding assms(1,2) default_Filter_fst by (simp add: unhealthyStr_alt)
  have t: "err (fst (default_Filter IsHealthy w instances op rf hb True))
           = Some (''at least '' @ show_int (minSuccess rf (length H))
                   @ '' live replicas required across different availability zones, could only find ''
                   @ show_int (int (length H))
                   @ (if U = [] then ''''
                      else '' - unhealthy instances: '' @ strings_Join U '',''))"
    using assms(3) unfolding assms(1,2) default_Filter_fst by (simp add: unhealthyStr_alt)
  have "err (fst (default_Filter IsHealthy w instances op rf hb True))
           \<noteq> err (fst (default_Filter IsHealthy w instances op rf hb False))"
    unfolding f t by (simp only: option.inject replicas_wording_differs not_False_eq_True)
  with f t show ?thesis by blast
qed

text \<open>One healthy instance of three, \<open>RF = 3\<close>, without and with zone-awareness.\<close>

theorem C7_quorum_error_message_witness:
  "int (length [inst ''c'' 99]) < minSuccess 3 (length [inst ''c'' 99])
   \<and> err (fst (default_Filter (IsHealthy_spec anyState) \<lparr>clock = sconst 100\<rparr>
              [inst ''a'' 5, inst ''b'' 10, inst ''c'' 99] Write 3 30 False))
       = Some ''at least 2 live replicas required, could only find 1 - unhealthy instances: a,b''
   \<and> err (fst (default_Filter (IsHealthy_spec anyState) \<lparr>clock = sconst 100\<rparr>
              [inst ''a'' 5, inst ''b'' 10, inst ''c'' 99] Write 3 30 True))
       = Some ''at least 2 live replicas required across different availability zones, could only find 1 - unhealthy instances: a,b''"
  using C7_quorum_error_message [of "[inst ''c'' 99]" "IsHealthy_spec anyState" Write 30
      "\<lparr>clock = sconst 100\<rparr>" "[inst ''a'' 5, inst ''b'' 10, inst ''c'' 99]" "[''a'', ''b'']" 3]
  by (simp add: example_defs minSuccess_floor show_int_examples)

text \<open>
  C8 as stated says that the errors carry the required count, the healthy count, the
  zone flag and the list of unhealthy addresses as structured fields. Both errors are
  made by \<^verbatim>\<open>fmt.Errorf\<close> and are their message, nothing more. The list of unhealthy
  addresses cannot be got back from it: the address lists \<open>[''a,b'']\<close> and
  \<open>[''a'', ''b'']\<close> give the very same error, in either strategy.
\<close>

theorem C8_error_is_text_only_counterexample:
  "err (fst (default_Filter (IsHealthy_spec anyState) \<lparr>clock = sconst 100\<rparr>
          [inst ''a,b'' 5] Write 3 30 False))
     = err (fst (default_Filter (IsHealthy_spec anyState) \<lparr>clock = sconst 100\<rparr>
          [inst ''a'' 5, inst ''b'' 5] Write 3 30 False))
   \<and> err (fst (default_Filter (IsHealthy_spec anyState) \<lparr>clock = sconst 100\<rparr>
          [inst ''a,b'' 5] Write 3 30 False))
     = Some ''at least 2 live replicas required, could only find 0 - unhealthy instances: a,b''
   \<and> err (fst (ignoreUnhealthy_Filter (IsHealthy_spec anyState) \<lparr>clock = sconst 100\<rparr>
          [inst ''a,b'' 5] Write 3 30 False))
     = err (fst (ignoreUnhealthy_Filter (IsHealthy_spec anyState) \<lparr>clock = sconst 100\<rparr>
          [inst ''a'' 5, inst ''b'' 5] Write 3 30 False))
   \<and> err (fst (ignoreUnhealthy_Filter (IsHealthy_spec anyState) \<lparr>clock = sconst 100\<rparr>
          [inst ''a,b'' 5] Write 3 30 False))
     = Some ''at least 1 healthy replica required, could only find 0 - unhealthy instances: a,b''
   \<and> map Addr [inst ''a,b'' 5] \<noteq> map Addr [inst ''a'' 5, inst ''b'' 5]"
  by (simp add: default_Filter_fst ignoreUnhealthy_Filter_fst example_defs minSuccess_floor
        show_int_examples unhealthyStr_def)

text \<open>
  C8, amended. Both error kinds are returned as values, as the third result next to a nil
  instance list and a failure budget of zero, never thrown. Each is a plain message: the
  text rendering of the required count, the healthy count, the wording chosen by the
  zone flag and the comma-joined unhealthy addresses for the quorum strategy, and of the
  comma-joined unhealthy addresses for the best-effort strategy. No field is carried
  beside the text.
\<close>

theorem C8_errors_are_returned_messages:
  assumes "H = filter (\<lambda>i. IsHealthy i op hb (time_Now w)) instances"
    and "U = map Addr (filter (\<lambda>i. \<not> IsHealthy i op hb (time_Now w)) instances)"
    and "q = fst (default_Filter IsHealthy w instances op rf hb zone)"
    and "b = fst (ignoreUnhealthy_Filter IsHealthy w instances op rf hb zone)"
  shows "(err q \<noteq> None \<longrightarrow>
            q = \<lparr>healthy = [], maxFailures = 0,
                 err = Some (''at least '' @ show_int (minSuccess rf (length H))
                   @ (if zone
                      then '' live replicas required across different availability zones, could only find ''
                      else '' live replicas required, could only find '')
                   @ show_int (int (length H)) @ unhealthyStr U)\<rparr>)
       \<and> (err b \<noteq> None \<longrightarrow>
            b = \<lparr>healthy = [], maxFailures = 0,
                 err = Some (''at least 1 healthy replica required, could only find 0''
                   @ unhealthyStr U)\<rparr>)"
  unfolding assms default_Filter_fst ignoreUnhealthy_Filter_fst by simp

text \<open>Two stale candidates, \<open>RF = 3\<close>, zone-awareness on: both strategies fail.\<close>

theorem C8_errors_are_returned_messages_witness:
  "fst (default_Filter (IsHealthy_spec anyState) \<lparr>clock = sconst 100\<rparr>
          [inst ''a'' 5, inst ''b'' 10] Write 3 30 True)
     = \<lparr>healthy = [], maxFailures = 0,
        err = Some ''at least 2 live replicas required across different availability zones, could only find 0 - unhealthy instances: a,b''\<rparr>
   \<and> fst (ignoreUnhealthy_Filter (IsHealthy_spec anyState) \<lparr>clock = sconst 100\<rparr>
          [inst ''a'' 5, inst ''b'' 10] Write 3 30 True)
     = \<lparr>healthy = [], maxFailures = 0,
        err = Some ''at least 1 healthy replica required, could only find 0 - unhealthy instances: a,b''\<rparr>"
proof -
  let ?xs = "[inst ''a'' 5, inst ''b'' 10]"
  let ?q = "fst (default_Filter (IsHealthy_spec anyState) \<lparr>clock = sconst 100\<rparr> ?xs Write 3 30 True)"
  let ?b = "fst (ignoreUnhealthy_Filter (IsHealthy_spec anyState) \<lparr>clock = sconst 100\<rparr> ?xs Write 3 30 True)"
  have failed: "err ?q \<noteq> None" "err ?b \<noteq> None"
    by (simp_all add: default_Filter_fst ignoreUnhealthy_Filter_fst example_defs minSuccess_floor)
  from failed
    C8_errors_are_returned_messages [of "[]" "IsHealthy_spec anyState" Write 30
      "\<lparr>clock = sconst 100\<rparr>" ?xs "[''a'', ''b'']" ?q 3 True ?b]
  show ?thesis
    by (simp add: example_defs minSuccess_floor show_int_examples unhealthyStr_def)
qed

text \<open>
  C9 as stated says that the caller's slice is left unmodified. The loop removes an
  unhealthy instance by \<^verbatim>\<open>append(instances[:i], instances[i+1:]...)\<close>, which writes into
  the caller's backing array (the comment above \<open>Filter\<close> says that the argument may be
  overwritten). With a stale first and a live second candidate the caller's slice holds
  the second candidate twice after the call.
\<close>

theorem C9_input_is_overwritten_counterexample:
  "fst (snd (default_Filter (IsHealthy_spec anyState) \<lparr>clock = sconst 100\<rparr>
          [inst ''a'' 5, inst ''b'' 99] Write 1 30 False))
     = [inst ''b'' 99, inst ''b'' 99]
   \<and> fst (snd (ignoreUnhealthy_Filter (IsHealthy_spec anyState) \<lparr>clock = sconst 100\<rparr>
          [inst ''a'' 5, inst ''b'' 99] Write 1 30 False))
     = [inst ''b'' 99, inst ''b'' 99]
   \<and> [inst ''b'' 99, inst ''b'' 99] \<noteq> [inst ''a'' 5, inst ''b'' 99]"
  by (simp add: default_Filter_array ignoreUnhealthy_Filter_array example_defs)

text \<open>
  C9, amended. Either strategy compacts the healthy instances in place: after the call
  the caller's slice has its old length, starts with the healthy instances in their
  input order and holds copies of the last input instance in the remaining places; the
  returned healthy slice is a prefix of that same array and not a fresh sequence. The
  caller's slice is left as it was when every instance is healthy.
\<close>

theorem C9_filter_compacts_in_place:
  assumes "h = (\<lambda>i. IsHealthy i op hb (time_Now w))"
    and "(r, arr, w') = default_Filter IsHealthy w instances op rf hb zone
       \<or> (r, arr, w') = ignoreUnhealthy_Filter IsHealthy w instances op rf hb zone"
  shows "arr = filter h instances
               @ replicate (length instances - length (filter h instances)) (last instances)
       \<and> length arr = length instances
       \<and> prefix (healthy r) arr
       \<and> ((\<forall>x\<in>set instances. h x) \<longrightarrow> arr = instances)"
proof -
  have arr: "arr = filter h instances
               @ replicate (length instances - length (filter h instances)) (last instances)"
    using assms(2)
  proof
    assume "(r, arr, w') = default_Filter IsHealthy w instances op rf hb zone"
    then have "arr = fst (snd (default_Filter IsHealthy w instances op rf hb zone))"
      by (metis fst_conv snd_conv)
    then show ?thesis
      unfolding assms(1) default_Filter_array length_filter_not .
  next
    assume "(r, arr, w') = ignoreUnhealthy_Filter IsHealthy w instances op rf hb zone"
    then have "arr = fst (snd (ignoreUnhealthy_Filter IsHealthy w instances op rf hb zone))"
      by (metis fst_conv snd_conv)
    then show ?thesis
      unfolding assms(1) ignoreUnhealthy_Filter_array length_filter_not .
  qed
  have len: "length arr = length instances"
    unfolding arr using length_filter_le [of h instances] by simp
  have pre: "prefix (healthy r) arr"
    using assms(2)
  proof
    assume "(r, arr, w') = default_Filter IsHealthy w instances op rf hb zone"
    then have "r = fst (default_Filter IsHealthy w instances op rf hb zone)"
      by (metis fst_conv)
    then show ?thesis
      unfolding arr assms(1) default_Filter_fst by simp
  next
    assume "(r, arr, w') = ignoreUnhealthy_Filter IsHealthy w instances op rf hb zone"
    then have "r = fst (ignoreUnhealthy_Filter IsHealthy w instances op rf hb zone)"
      by (metis fst_conv)
    then show ?thesis
      unfolding arr assms(1) ignoreUnhealthy_Filter_fst by simp
  qed
  have same: "(\<forall>x\<in>set instances. h x) \<longrightarrow> arr = instances"
    unfolding arr by simp
  from arr len pre same show ?thesis by blast
qed

text \<open>
  A stale, a live and a stale candidate for the quorum strategy; two live candidates for
  the best-effort strategy, which are left alone.
\<close>

theorem C9_filter_compacts_in_place_witness:
  "fst (snd (default_Filter (IsHealthy_spec anyState) \<lparr>clock = sconst 100\<rparr>
          [inst ''a'' 5, inst ''b'' 99, inst ''c'' 7] Write 1 30 False))
     = [inst ''b'' 99, inst ''c'' 7, inst ''c'' 7]
   \<and> fst (snd (ignoreUnhealthy_Filter (IsHealthy_spec anyState) \<lparr>clock = sconst 100\<rparr>
          [inst ''a'' 90, inst ''b'' 99] Write 1 30 False))
     = [inst ''a'' 90, inst ''b'' 99]"
proof -
  let ?h = "\<lambda>i. IsHealthy_spec anyState i Write 30 (time_Now \<lparr>clock = sconst 100\<rparr>)"
  let ?xs = "[inst ''a'' 5, inst ''b'' 99, inst ''c'' 7]"
  let ?ys = "[inst ''a'' 90, inst ''b'' 99]"
  let ?q = "default_Filter (IsHealthy_spec anyState) \<lparr>clock = sconst 100\<rparr> ?xs Write 1 30 False"
  let ?b = "ignoreUnhealthy_Filter (IsHealthy_spec anyState) \<lparr>clock = sconst 100\<rparr> ?ys Write 1 30 False"
  have q: "fst (snd ?q) = [inst ''b'' 99, inst ''c'' 7, inst ''c'' 7]"
    using C9_filter_compacts_in_place [of ?h "IsHealthy_spec anyState" Write 30
        "\<lparr>clock = sconst 100\<rparr>" "fst ?q" "fst (snd ?q)" "snd (snd ?q)" ?xs 1 False]
    by (simp add: example_defs)
  have b: "fst (snd ?b) = ?ys"
    using C9_filter_compacts_in_place [of ?h "IsHealthy_spec anyState" Write 30
        "\<lparr>clock = sconst 100\<rparr>" "fst ?b" "fst (snd ?b)" "snd (snd ?b)" ?ys 1 False]
    by (simp add: example_defs)
  from q b show ?thesis by simp
qed

text \<open>
  C10. For every replication factor, zero and negative ones included, \<open>minSuccess\<close> is at
  least 1, because the factor used for the quorum is never below the healthy count.
  Hence a success of the quorum strategy always returns at least one instance and a
  failure budget strictly below the number of returned instances.
\<close>

theorem C10_minSuccess_at_least_one:
  assumes "r = fst (default_Filter IsHealthy w instances op rf hb zone)"
  shows "1 \<le> minSuccess rf n
       \<and> int n \<le> effectiveFactor rf n
       \<and> (err r = None \<longrightarrow> healthy r \<noteq> [] \<and> maxFailures r < int (length (healthy r)))"
proof (intro conjI impI)
  show "1 \<le> minSuccess rf n"
    by (rule minSuccess_ge_1)
  show "int n \<le> effectiveFactor rf n"
    by (simp add: effectiveFactor_max)
next
  let ?n = "length (filter (\<lambda>i. IsHealthy i op hb (time_Now w)) instances)"
  assume ok: "err r = None"
  have ms: "1 \<le> minSuccess rf ?n"
    by (rule minSuccess_ge_1)
  from ok ms show "healthy r \<noteq> []"
    unfolding assms default_Filter_fst by (auto split: if_splits)
  from ok ms show "maxFailures r < int (length (healthy r))"
    unfolding assms default_Filter_fst by (simp split: if_splits)
qed

text \<open>A replication factor of \<open>-7\<close> and one healthy instance: the quorum is 1.\<close>

theorem C10_minSuccess_at_least_one_witness:
  "1 \<le> minSuccess (- 7) 1
   \<and> int 1 \<le> effectiveFactor (- 7) 1
   \<and> err (fst (default_Filter (IsHealthy_spec anyState) \<lparr>clock = sconst 100\<rparr>
        [inst ''a'' 5, inst ''b'' 100, inst ''c'' 9] Write (- 7) 30 False)) = None
   \<and> healthy (fst (default_Filter (IsHealthy_spec anyState) \<lparr>clock = sconst 100\<rparr>
        [inst ''a'' 5, inst ''b'' 100, inst ''c'' 9] Write (- 7) 30 False)) \<noteq> []
   \<and> maxFailures (fst (default_Filter (IsHealthy_spec anyState) \<lparr>clock = sconst 100\<rparr>
        [inst ''a'' 5, inst ''b'' 100, inst ''c'' 9] Write (- 7) 30 False))
       < int (length (healthy (fst (default_Filter (IsHealthy_spec anyState) \<lparr>clock = sconst 100\<rparr>
        [inst ''a'' 5, inst ''b'' 100, inst ''c'' 9] Write (- 7) 30 False))))"
proof -
  let ?xs = "[inst ''a'' 5, inst ''b'' 100, inst ''c'' 9]"
  let ?q = "fst (default_Filter (IsHealthy_spec anyState) \<lparr>clock = sconst 100\<rparr> ?xs Write (- 7) 30 False)"
  have ok: "err ?q = None"
    by (simp add: default_Filter_fst example_defs minSuccess_floor)
  from C10_minSuccess_at_least_one [of ?q "IsHealthy_spec anyState" "\<lparr>clock = sconst 100\<rparr>" ?xs
      Write "- 7" 30 False 1] ok
  show ?thesis by simp
qed

end
